theory Spec2Isabelle
  imports Complex_Main "HOL-Library.Word"
begin

section \<open>The Frank return-to-launch controller (ArduCopter/mode\_frank.cpp)\<close>

text \<open>
  A shallow embedding of \<^verbatim>\<open>ModeFrank\<close>. The controller's own member variables are the
  record \<open>ModeFrank\<close>; everything it reads from its collaborators during one call
  (AHRS, motors, waypoint controller, terrain database, fence, parameters, clock) is the
  record \<open>inputs\<close>, a snapshot taken for that call; everything it asks of its
  collaborators that a property below speaks about (error log, operator text, pushed
  waypoint, mode change, disarm) is appended to the trace \<open>events\<close>. Attitude, yaw-rate,
  position and spool set-points are written to the external loops and never read back,
  and are left out of the trace.

  Conventions.
  \<^item> \<open>rtl_state\<close>, \<open>state_complete\<close> and \<open>loiter_start_time\<close> are the members
    \<^verbatim>\<open>_state\<close>, \<^verbatim>\<open>_state_complete\<close> and \<^verbatim>\<open>_loiter_start_time\<close>.
  \<^item> \<^verbatim>\<open>uint32_t\<close> millisecond clocks are \<open>32 word\<close>: subtraction wraps as in C++.
  \<^item> \<^verbatim>\<open>int32_t\<close> altitudes (centimetres) are \<open>int\<close>, every input among them lying in
    the 32-bit range. A sum or difference of two of them is what the 32-bit register
    holds (\<open>int32\<close>): it wraps around.
  \<^item> \<^verbatim>\<open>float\<close> values are the \<open>real\<close> numbers that IEEE 754 binary32 represents. The
    result of every conversion from \<^verbatim>\<open>int32_t\<close> and of every float operation is rounded
    to the nearest such number, ties to even (\<open>binary32\<close>); infinities and NaN are not
    modelled. A float stored into an \<^verbatim>\<open>int32_t\<close> is truncated towards zero
    (\<open>float_to_int32\<close>); C++ leaves the conversion of a value outside the 32-bit range
    undefined, and so does the model.
  \<^item> \<open>mission_index\<close> only ever receives 0, 13 or its own successor, and is a \<open>nat\<close>.
  \<^item> \<open>mission_wp\<close> is the fixed array of waypoints, a function from the index.
  \<^item> \<^verbatim>\<open>MAX\<close> and \<^verbatim>\<open>MIN\<close> are \<open>max\<close> and \<open>min\<close>.
\<close>

subsection \<open>Data\<close>

datatype RTLState =
  Frank_Starting | Frank_InitialClimb | Frank_ReturnHome
  | Frank_LoiterAtHome | Frank_FinalDescent | Frank_Land

datatype AltFrame = ABSOLUTE | ABOVE_HOME | ABOVE_ORIGIN | ABOVE_TERRAIN

datatype AutoYawMode = AUTO_YAW_HOLD | AUTO_YAW_RATE | AUTO_YAW_RESETTOARMEDYAW | AUTO_YAW_OTHER

datatype LogErrorSubsystem = NAVIGATION | TERRAIN

datatype LogErrorCode = RESTARTED_RTL | FAILED_TO_SET_DESTINATION | MISSING_TERRAIN_DATA

datatype ModeNumber = LAND | LOITER | ALT_HOLD

datatype ModeReason = TERRAIN_FAILSAFE | THROTTLE_LAND_ESCAPE

type_synonym uint32_t = "32 word"

type_synonym Vector3f = "real \<times> real \<times> real"

record Location =
  lat :: int
  lng :: int
  alt :: int
  frame :: AltFrame

record RTLPath =
  origin_point :: Location
  climb_target :: Location
  return_target :: Location
  descent_target :: Location
  land :: bool
  terrain_used :: bool

text \<open>
  What the controller asks of its collaborators: \<^verbatim>\<open>AP::logger().Write_Error\<close>,
  \<^verbatim>\<open>gcs().send_text\<close> (the operator notification, always sent with
  \<^verbatim>\<open>MAV_SEVERITY_CRITICAL\<close> here), \<^verbatim>\<open>wp_nav->set_wp_destination\<close> with the result
  the waypoint controller gave, \<^verbatim>\<open>copter.set_mode\<close> and \<^verbatim>\<open>copter.arming.disarm\<close>.
\<close>

datatype event =
  Write_Error LogErrorSubsystem LogErrorCode
  | Gcs_Send_Text string
  | Set_Wp_Destination Vector3f bool
  | Set_Mode ModeNumber ModeReason
  | Disarm

record ModeFrank =
  rtl_state :: RTLState
  state_complete :: bool
  terrain_following_allowed :: bool
  start_time_ms :: uint32_t
  loiter_start_time :: uint32_t
  rtl_path :: RTLPath
  mission_wp :: "nat \<Rightarrow> Vector3f"
  mission_index :: nat
  mission_completed :: bool
  auto_yaw_mode :: AutoYawMode
  events :: "event list"

text \<open>
  The snapshot of the collaborators for one call. The three constants
  \<^verbatim>\<open>RTL_ALT_MIN\<close>, \<^verbatim>\<open>RTL_MIN_CONE_SLOPE\<close> and \<^verbatim>\<open>RTL_ABS_MIN_CLIMB\<close> are macros of a
  header that is not part of the file and are taken as parameters.

  \<^item> \<open>set_wp_ok\<close>: what \<^verbatim>\<open>set_wp_destination\<close> returns in this call;
  \<^item> \<open>reached\<close>: what \<^verbatim>\<open>reached_wp_destination()\<close> reports after
    \<^verbatim>\<open>update_wpnav()\<close>; \<open>reached_after_push\<close>: what it reports once a new destination
    has been pushed in the same call;
  \<^item> \<open>origin_terr_alt\<close>, \<open>return_target_terr_alt\<close>, \<open>curr_terr_alt\<close>: the results of
    the three \<^verbatim>\<open>get_alt_cm(ABOVE_TERRAIN, _)\<close> look-ups, \<open>None\<close> when one fails;
  \<^item> \<open>return_target_home_alt\<close>: the return point's altitude above home, \<open>None\<close> when
    the conversion fails;
  \<^item> \<open>terrain_above_home\<close>: the elevation of the terrain under the return point
    over home, \<open>None\<close> when the terrain database has no data there;
  \<^item> \<open>fence_alt_max_enabled\<close>: \<^verbatim>\<open>AC_FENCE\<close> is compiled in and
    \<^verbatim>\<open>get_enabled_fences() & AC_FENCE_TYPE_ALT_MAX\<close> is not zero;
  \<^item> \<open>land_cancel\<close>: the pilot's high-throttle land cancel of \<^verbatim>\<open>descent_run\<close>;
  \<^item> \<open>yaw_error_cd\<close>: \<^verbatim>\<open>wrap_180_cd(ahrs.yaw_sensor - copter.initial_armed_bearing)\<close>.
\<close>

record inputs =
  home_is_set :: bool
  failsafe_terrain :: bool
  failsafe_radio :: bool
  millis :: uint32_t
  armed :: bool
  disarmed_or_landed :: bool
  set_wp_ok :: bool
  reached :: bool
  reached_after_push :: bool
  pilot_yaw_rate_zero :: bool
  land_complete :: bool
  spool_ground_idle :: bool
  land_cancel :: bool
  set_mode_loiter_ok :: bool
  yaw_error_cd :: int
  current_loc_alt :: int
  stopping_point :: Location
  best_return_loc :: Location
  terrain_use :: bool
  origin_terr_alt :: "int option"
  return_target_terr_alt :: "int option"
  curr_terr_alt :: "int option"
  return_target_home_alt :: "int option"
  terrain_above_home :: "int option"
  return_dist_m :: real
  fence_alt_max_enabled :: bool
  fence_safe_alt_max :: real
  rtl_climb_min :: int
  rtl_altitude :: int
  rtl_cone_slope :: real
  rtl_alt_final :: int
  rtl_loiter_time :: int
  RTL_ALT_MIN :: int
  RTL_MIN_CONE_SLOPE :: real
  RTL_ABS_MIN_CLIMB :: int

definition log_event :: "event \<Rightarrow> ModeFrank \<Rightarrow> ModeFrank" where
  "log_event e s = s\<lparr>events := events s @ [e]\<rparr>"

subsection \<open>Machine arithmetic\<close>

text \<open>The value a 32-bit two's complement register holds for the integer \<open>x\<close>.\<close>

definition int32 :: "int \<Rightarrow> int" where
  "int32 x = (x + 2147483648) mod 4294967296 - 2147483648"

text \<open>The conversion of a \<^verbatim>\<open>float\<close> to \<^verbatim>\<open>int32_t\<close>: the fraction is dropped.\<close>

definition float_to_int32 :: "real \<Rightarrow> int" where
  "float_to_int32 r = (if 0 \<le> r then \<lfloor>r\<rfloor> else \<lceil>r\<rceil>)"

text \<open>
  Rounding to binary32. The exponent of a non-negative \<open>x\<close> is found by counting up from
  0 or down from -1, and stays between -126 (below it the numbers are subnormal and share
  the spacing of that exponent) and 127. The spacing of the binary32 numbers around \<open>x\<close>
  is 2 to that exponent minus 23, for a significand of 24 bits, and \<open>x\<close> is rounded to
  the nearest multiple of the spacing, a tie going to the even multiple.
\<close>

definition round_half_even :: "real \<Rightarrow> int" where
  "round_half_even r =
     (let n = \<lfloor>r\<rfloor>; d = r - of_int n
      in if d < 1 / 2 then n else if 1 / 2 < d then n + 1 else if even n then n else n + 1)"

function binade_up :: "real \<Rightarrow> int \<Rightarrow> int" where
  "binade_up x e = (if 127 \<le> e \<or> x < 2 powi (e + 1) then e else binade_up x (e + 1))"
  by pat_completeness auto
termination
  by (relation "measure (\<lambda>(x, e). nat (127 - e))") auto

function binade_down :: "real \<Rightarrow> int \<Rightarrow> int" where
  "binade_down x e = (if e \<le> - 126 \<or> 2 powi e \<le> x then e else binade_down x (e - 1))"
  by pat_completeness auto
termination
  by (relation "measure (\<lambda>(x, e). nat (e + 126))") auto

definition binade :: "real \<Rightarrow> int" where
  "binade x = (if 1 \<le> x then binade_up x 0 else binade_down x (- 1))"

definition ulp :: "real \<Rightarrow> real" where
  "ulp x = 2 powi (binade \<bar>x\<bar> - 23)"

definition binary32 :: "real \<Rightarrow> real" where
  "binary32 x = of_int (round_half_even (x / ulp x)) * ulp x"

subsection \<open>init and restart\_without\_terrain (lines 13-37)\<close>

definition init :: "bool \<Rightarrow> inputs \<Rightarrow> ModeFrank \<Rightarrow> bool \<times> ModeFrank" where
  "init ignore_checks i s =
     (if \<not> ignore_checks \<and> \<not> home_is_set i then (False, s)
      else (True, s\<lparr>rtl_state := Frank_Starting,
                     state_complete := True,
                     terrain_following_allowed := \<not> failsafe_terrain i,
                     start_time_ms := millis i\<rparr>))"

definition restart_without_terrain :: "ModeFrank \<Rightarrow> ModeFrank" where
  "restart_without_terrain s =
     (let s1 = log_event (Write_Error NAVIGATION RESTARTED_RTL) s
      in if terrain_used (rtl_path s1)
         then log_event (Gcs_Send_Text ''Restarting RTL - Terrain data missing'')
                (s1\<lparr>terrain_following_allowed := False,
                     rtl_state := Frank_Starting,
                     state_complete := True\<rparr>)
         else s1)"

subsection \<open>compute\_return\_target (lines 492-567)\<close>

text \<open>
  \<^verbatim>\<open>Location::set_alt_cm\<close> and \<^verbatim>\<open>Location::change_alt_frame\<close> belong to a library that
  is not part of the file. Setting an altitude stores the value and the frame; changing
  the frame stores the converted altitude, which is an input (\<open>None\<close> when the
  conversion fails, and then the location is left as it was and the call returns false).
\<close>

definition set_alt_cm :: "int \<Rightarrow> AltFrame \<Rightarrow> Location \<Rightarrow> Location" where
  "set_alt_cm a f l = l\<lparr>alt := a, frame := f\<rparr>"

definition change_alt_frame :: "int option \<Rightarrow> AltFrame \<Rightarrow> Location \<Rightarrow> bool \<times> Location" where
  "change_alt_frame converted f l =
     (case converted of None \<Rightarrow> (False, l) | Some a \<Rightarrow> (True, set_alt_cm a f l))"

text \<open>
  \<^verbatim>\<open>get_alt_cm(ABOVE_HOME, _)\<close> on the return target, called once its altitude has been
  stored above home or above terrain: an altitude above home is returned as it is, an
  altitude above terrain is raised by the elevation of the terrain over home, and the
  call fails when the terrain database has no data.
\<close>

definition get_alt_cm_above_home :: "inputs \<Rightarrow> Location \<Rightarrow> int option" where
  "get_alt_cm_above_home i l =
     (if frame l = ABOVE_HOME then Some (alt l)
      else (case terrain_above_home i of None \<Rightarrow> None | Some t \<Rightarrow> Some (alt l + t)))"

text \<open>
  Lines 501-514: whether terrain altitudes are used, and \<^verbatim>\<open>curr_alt\<close>. The three
  look-ups are joined by \<^verbatim>\<open>||\<close>, so the current altitude is only replaced by the
  altitude above terrain when the two look-ups before it succeeded.
\<close>

definition terrain_lookups_ok :: "inputs \<Rightarrow> bool" where
  "terrain_lookups_ok i =
     (origin_terr_alt i \<noteq> None \<and> return_target_terr_alt i \<noteq> None \<and> curr_terr_alt i \<noteq> None)"

definition resolved_terrain_used :: "inputs \<Rightarrow> ModeFrank \<Rightarrow> bool" where
  "resolved_terrain_used i s =
     (terrain_use i \<and> terrain_following_allowed s \<and> terrain_lookups_ok i)"

definition resolved_curr_alt :: "inputs \<Rightarrow> ModeFrank \<Rightarrow> int" where
  "resolved_curr_alt i s =
     (if terrain_use i \<and> terrain_following_allowed s
         \<and> origin_terr_alt i \<noteq> None \<and> return_target_terr_alt i \<noteq> None
      then (case curr_terr_alt i of None \<Rightarrow> current_loc_alt i | Some a \<Rightarrow> a)
      else current_loc_alt i)"

text \<open>
  Lines 517-523: the return target in the frame that was chosen, and whether terrain
  altitudes are still used.
\<close>

definition return_target_above_home :: "inputs \<Rightarrow> Location \<Rightarrow> Location" where
  "return_target_above_home i l =
     (case change_alt_frame (return_target_home_alt i) ABOVE_HOME l of
        (True, l') \<Rightarrow> l'
      | (False, l') \<Rightarrow> set_alt_cm 0 ABOVE_HOME l')"

definition framed_return_target :: "inputs \<Rightarrow> ModeFrank \<Rightarrow> bool \<times> Location" where
  "framed_return_target i s =
     (if \<not> resolved_terrain_used i s
      then (False, return_target_above_home i (best_return_loc i))
      else (case change_alt_frame (return_target_terr_alt i) ABOVE_TERRAIN (best_return_loc i) of
              (True, l') \<Rightarrow> (True, l')
            | (False, l') \<Rightarrow> (False, return_target_above_home i l')))"

text \<open>
  Lines 528-532: the target altitude is raised, never lowered. The sum of line 531 is
  an \<^verbatim>\<open>int32_t\<close> sum.
\<close>

definition raise_target_alt :: "inputs \<Rightarrow> int \<Rightarrow> int \<Rightarrow> int" where
  "raise_target_alt i return_alt curr_alt =
     (let target_alt = max return_alt 0;
          target_alt = max target_alt (int32 (curr_alt + max 0 (rtl_climb_min i)));
          target_alt = max target_alt (max (rtl_altitude i) (RTL_ALT_MIN i))
      in target_alt)"

text \<open>
  Lines 535-540: the cone around the return point. \<open>return_dist_m i\<close> is the float that
  \<^verbatim>\<open>get_distance\<close> returns. Each \<^verbatim>\<open>MAX\<close> and \<^verbatim>\<open>MIN\<close> has a float operand, so its
  \<^verbatim>\<open>int32_t\<close> operand is converted to float and the result is a float.
\<close>

definition cone_clamp :: "inputs \<Rightarrow> int \<Rightarrow> int \<Rightarrow> int" where
  "cone_clamp i curr_alt target_alt =
     (let rtl_return_dist_cm = binary32 (return_dist_m i * 100)
      in if RTL_MIN_CONE_SLOPE i \<le> rtl_cone_slope i
         then float_to_int32
                (max (binary32 (of_int curr_alt))
                   (min (binary32 (of_int target_alt))
                      (max (binary32 (rtl_return_dist_cm * rtl_cone_slope i))
                           (binary32 (of_int (int32 (curr_alt + RTL_ABS_MIN_CLIMB i)))))))
         else target_alt)"

text \<open>
  Lines 552-561: the fence. \<open>fence_safe_alt_max i\<close> is the float that
  \<^verbatim>\<open>get_safe_alt_max\<close> returns. The comparison converts \<^verbatim>\<open>target_alt\<close> to float;
  \<^verbatim>\<open>alt -= (target_alt - fence_alt)\<close> converts both altitudes to float, subtracts twice
  in float and stores the difference back into the \<^verbatim>\<open>int32_t\<close> altitude.
\<close>

definition fence_clamp :: "inputs \<Rightarrow> Location \<Rightarrow> Location" where
  "fence_clamp i l =
     (if fence_alt_max_enabled i
      then (case get_alt_cm_above_home i l of
              None \<Rightarrow> l
            | Some target_alt \<Rightarrow>
                (let fence_alt = binary32 (fence_safe_alt_max i * 100)
                 in if fence_alt < binary32 (of_int target_alt)
                    then l\<lparr>alt := float_to_int32
                                   (binary32 (binary32 (of_int (alt l))
                                      - binary32 (binary32 (of_int target_alt) - fence_alt)))\<rparr>
                    else l))
      else l)"

text \<open>
  The activation in three stages: the target altitude as it stands at line 532
  (\<open>raised_target_alt\<close>), the return target as line 543 stores it
  (\<open>unfenced_return_target\<close>), and the return target after the fence, as line 566
  finds it (\<open>policy_return_target\<close>).
\<close>

definition raised_target_alt :: "inputs \<Rightarrow> ModeFrank \<Rightarrow> int" where
  "raised_target_alt i s =
     raise_target_alt i (alt (snd (framed_return_target i s))) (resolved_curr_alt i s)"

definition unfenced_return_target :: "inputs \<Rightarrow> ModeFrank \<Rightarrow> Location" where
  "unfenced_return_target i s =
     (let curr_alt = resolved_curr_alt i s;
          (used, target) = framed_return_target i s;
          target_alt = raised_target_alt i s;
          target_alt = cone_clamp i curr_alt target_alt
      in set_alt_cm target_alt (if used then ABOVE_TERRAIN else ABOVE_HOME) target)"

definition policy_return_target :: "inputs \<Rightarrow> ModeFrank \<Rightarrow> Location" where
  "policy_return_target i s = fence_clamp i (unfenced_return_target i s)"

definition compute_return_target :: "inputs \<Rightarrow> ModeFrank \<Rightarrow> ModeFrank" where
  "compute_return_target i s =
     (let s1 = (if terrain_use i \<and> terrain_following_allowed s \<and> \<not> terrain_lookups_ok i
                then log_event (Write_Error TERRAIN MISSING_TERRAIN_DATA) s else s);
          used = fst (framed_return_target i s);
          target = policy_return_target i s;
          target = target\<lparr>alt := 700\<rparr>
      in s1\<lparr>rtl_path := (rtl_path s1)\<lparr>return_target := target, terrain_used := used\<rparr>\<rparr>)"

subsection \<open>build\_path (lines 444-487)\<close>

text \<open>
  \<open>stopping_point i\<close> is the position controller's stopping point as a location, after
  \<^verbatim>\<open>change_alt_frame(ABOVE_HOME)\<close>.
\<close>

definition build_path :: "inputs \<Rightarrow> ModeFrank \<Rightarrow> ModeFrank" where
  "build_path i s =
     (let s1 = s\<lparr>rtl_path := (rtl_path s)\<lparr>origin_point := stopping_point i\<rparr>\<rparr>;
          s2 = compute_return_target i s1;
          p = rtl_path s2;
          forward_const = (5 * 90.0000900001 :: real);
          climb_altitude = 200;
          forward = int32 (float_to_int32 (binary32 forward_const) + lat (origin_point p));
          p = p\<lparr>climb_target :=
                  \<lparr>lat = forward, lng = lng (origin_point p), alt = climb_altitude,
                   frame = frame (return_target p)\<rparr>\<rparr>;
          wp = (mission_wp s2)
                 (0 := (0, 0, 200), 1 := (500, 0, 200), 2 := (0, 0, 700), 3 := (0, 0, 200),
                  4 := (300, 0, 500), 5 := (0, 0, 800), 6 := (- 300, 0, 500), 7 := (0, 0, 200),
                  8 := (0, 0, 200), 9 := (0, 0, 200), 10 := (0, 0, 200), 11 := (0, 0, 200),
                  12 := (0, 0, 200), 13 := (0, 0, 200));
          p = p\<lparr>descent_target :=
                  \<lparr>lat = lat (return_target p), lng = lng (return_target p), alt = 700,
                   frame = ABOVE_HOME\<rparr>\<rparr>;
          p = p\<lparr>land := (rtl_alt_final i \<le> 0)\<rparr>
      in s2\<lparr>rtl_path := p, mission_wp := wp\<rparr>)"

subsection \<open>Phase entry and phase behaviour (lines 109-442)\<close>

definition climb_start :: "inputs \<Rightarrow> ModeFrank \<Rightarrow> ModeFrank" where
  "climb_start i s =
     (let s1 = s\<lparr>rtl_state := Frank_InitialClimb, state_complete := False\<rparr>;
          s2 = log_event (Set_Wp_Destination (mission_wp s1 0) (set_wp_ok i)) s1
      in if \<not> set_wp_ok i
         then log_event (Set_Mode LAND TERRAIN_FAILSAFE)
                (log_event (Write_Error NAVIGATION FAILED_TO_SET_DESTINATION) s2)
         else s2\<lparr>mission_index := 0, auto_yaw_mode := AUTO_YAW_RATE\<rparr>)"

definition return_start :: "inputs \<Rightarrow> ModeFrank \<Rightarrow> ModeFrank" where
  "return_start i s =
     (let s1 = s\<lparr>rtl_state := Frank_ReturnHome, state_complete := False\<rparr>;
          s2 = log_event (Set_Wp_Destination (mission_wp s1 12) (set_wp_ok i)) s1;
          s3 = (if \<not> set_wp_ok i then restart_without_terrain s2 else s2)
      in s3\<lparr>mission_index := 13, auto_yaw_mode := AUTO_YAW_RATE\<rparr>)"

text \<open>
  The answer of \<^verbatim>\<open>reached_wp_destination()\<close> at line 221: when the sequencer has pushed
  a new destination in this call, it is the answer for the new destination.
\<close>

definition reached_at_check :: "inputs \<Rightarrow> ModeFrank \<Rightarrow> bool" where
  "reached_at_check i s =
     (if mission_index s < 13 \<and> reached i then reached_after_push i else reached i)"

definition climb_return_run :: "inputs \<Rightarrow> ModeFrank \<Rightarrow> ModeFrank" where
  "climb_return_run i s =
     (if disarmed_or_landed i then s
      else
        (let s1 = s\<lparr>auto_yaw_mode :=
                      (if \<not> failsafe_radio i \<and> \<not> pilot_yaw_rate_zero i
                       then AUTO_YAW_HOLD else AUTO_YAW_RATE)\<rparr>;
             s2 = (if mission_index s1 < 13 \<and> reached i
                   then (let s' = s1\<lparr>mission_index := mission_index s1 + 1\<rparr>
                         in log_event
                              (Set_Wp_Destination (mission_wp s' (mission_index s')) (set_wp_ok i)) s')
                   else if 13 \<le> mission_index s1 \<and> reached i
                   then (if 180000 < millis i - start_time_ms s1
                         then s1\<lparr>mission_completed := True\<rparr>
                         else s1)
                   else s1)
         in s2\<lparr>state_complete := (reached_at_check i s \<and> mission_completed s2)\<rparr>))"

definition loiterathome_start :: "inputs \<Rightarrow> ModeFrank \<Rightarrow> ModeFrank" where
  "loiterathome_start i s =
     s\<lparr>rtl_state := Frank_LoiterAtHome, state_complete := False, loiter_start_time := millis i\<rparr>"

definition loiterathome_run :: "inputs \<Rightarrow> ModeFrank \<Rightarrow> ModeFrank" where
  "loiterathome_run i s =
     (if disarmed_or_landed i then s
      else
        (let s1 = (if \<not> failsafe_radio i \<and> \<not> pilot_yaw_rate_zero i
                   then s\<lparr>auto_yaw_mode := AUTO_YAW_HOLD\<rparr> else s)
         in if word_of_int (rtl_loiter_time i) \<le> millis i - loiter_start_time s1
            then (if auto_yaw_mode s1 = AUTO_YAW_RESETTOARMEDYAW
                  then (if \<bar>yaw_error_cd i\<bar> \<le> 200 then s1\<lparr>state_complete := True\<rparr> else s1)
                  else s1\<lparr>state_complete := True\<rparr>)
            else s1))"

definition descent_start :: "ModeFrank \<Rightarrow> ModeFrank" where
  "descent_start s =
     s\<lparr>rtl_state := Frank_FinalDescent, state_complete := False, auto_yaw_mode := AUTO_YAW_HOLD\<rparr>"

definition descent_run :: "inputs \<Rightarrow> ModeFrank \<Rightarrow> ModeFrank" where
  "descent_run i s =
     (if disarmed_or_landed i then s
      else
        (let s1 = (if \<not> failsafe_radio i \<and> land_cancel i
                   then (let s' = log_event (Set_Mode LOITER THROTTLE_LAND_ESCAPE) s
                         in if \<not> set_mode_loiter_ok i
                            then log_event (Set_Mode ALT_HOLD THROTTLE_LAND_ESCAPE) s'
                            else s')
                   else s)
         in s1\<lparr>state_complete :=
                 (\<bar>int32 (alt (descent_target (rtl_path s1)) - current_loc_alt i)\<bar> < 20)\<rparr>))"

definition land_start :: "ModeFrank \<Rightarrow> ModeFrank" where
  "land_start s =
     s\<lparr>rtl_state := Frank_Land, state_complete := False, auto_yaw_mode := AUTO_YAW_HOLD\<rparr>"

text \<open>
  \<^verbatim>\<open>land_run\<close> never reads its parameter; past the disarm it only writes set-points.
\<close>

definition land_run :: "bool \<Rightarrow> inputs \<Rightarrow> ModeFrank \<Rightarrow> ModeFrank" where
  "land_run disarm_on_land i s =
     (let s1 = s\<lparr>state_complete := land_complete i\<rparr>
      in if land_complete i \<and> spool_ground_idle i then log_event Disarm s1 else s1)"

subsection \<open>run (lines 41-105)\<close>

definition next_state :: "inputs \<Rightarrow> ModeFrank \<Rightarrow> ModeFrank" where
  "next_state i s =
     (if state_complete s
      then (case rtl_state s of
              Frank_Starting \<Rightarrow> climb_start i (build_path i s)
            | Frank_InitialClimb \<Rightarrow> return_start i s
            | Frank_ReturnHome \<Rightarrow> loiterathome_start i s
            | Frank_LoiterAtHome \<Rightarrow>
                (if land (rtl_path s) \<or> failsafe_radio i then land_start s else descent_start s)
            | Frank_FinalDescent \<Rightarrow> s
            | Frank_Land \<Rightarrow> s)
      else s)"

definition run_state :: "bool \<Rightarrow> inputs \<Rightarrow> ModeFrank \<Rightarrow> ModeFrank" where
  "run_state disarm_on_land i s =
     (case rtl_state s of
        Frank_Starting \<Rightarrow> climb_return_run i (s\<lparr>rtl_state := Frank_InitialClimb\<rparr>)
      | Frank_InitialClimb \<Rightarrow> climb_return_run i s
      | Frank_ReturnHome \<Rightarrow> climb_return_run i s
      | Frank_LoiterAtHome \<Rightarrow> loiterathome_run i s
      | Frank_FinalDescent \<Rightarrow> descent_run i s
      | Frank_Land \<Rightarrow> land_run disarm_on_land i s)"

definition run :: "bool \<Rightarrow> inputs \<Rightarrow> ModeFrank \<Rightarrow> ModeFrank" where
  "run disarm_on_land i s =
     (if \<not> armed i then s else run_state disarm_on_land i (next_state i s))"

subsection \<open>Sequences of calls\<close>

text \<open>
  The entry points that change the controller, each with the snapshot it runs against.
  The queries (\<^verbatim>\<open>is_landing\<close>, \<^verbatim>\<open>get_wp\<close>, ...) are \<^verbatim>\<open>const\<close> or read-only.
\<close>

datatype call = Init bool inputs | Restart_Without_Terrain | Run bool inputs

fun step :: "call \<Rightarrow> ModeFrank \<Rightarrow> ModeFrank" where
  "step (Init ignore_checks i) s = snd (init ignore_checks i s)"
| "step Restart_Without_Terrain s = restart_without_terrain s"
| "step (Run disarm_on_land i) s = run disarm_on_land i s"

fun exec :: "call list \<Rightarrow> ModeFrank \<Rightarrow> ModeFrank" where
  "exec [] s = s"
| "exec (c # cs) s = exec cs (step c s)"

text \<open>The call enters the climb phase: \<^verbatim>\<open>run\<close> reaches line 126 of \<^verbatim>\<open>climb_start\<close>.\<close>

fun enters_climb :: "call \<Rightarrow> ModeFrank \<Rightarrow> bool" where
  "enters_climb (Run disarm_on_land i) s =
     (armed i \<and> state_complete s \<and> rtl_state s = Frank_Starting \<and> set_wp_ok i)"
| "enters_climb _ s = False"

subsection \<open>A concrete controller and a concrete snapshot\<close>

text \<open>
  The controller as the zero-initialised object, before any path has been built, and a
  snapshot of an armed vehicle in flight 10 m above a home at the origin, with the
  default constants of the firmware (minimum RTL altitude 200 cm, minimum cone slope 0.5,
  absolute minimum climb 250 cm). The concrete instances below vary these.
\<close>

definition sample_location :: Location where
  "sample_location = \<lparr>lat = 0, lng = 0, alt = 0, frame = ABSOLUTE\<rparr>"

definition sample_inputs :: inputs where
  "sample_inputs =
     \<lparr>home_is_set = True, failsafe_terrain = False, failsafe_radio = False, millis = 1000,
      armed = True, disarmed_or_landed = False, set_wp_ok = True, reached = False,
      reached_after_push = False, pilot_yaw_rate_zero = True, land_complete = False,
      spool_ground_idle = False, land_cancel = False, set_mode_loiter_ok = True,
      yaw_error_cd = 0, current_loc_alt = 1000,
      stopping_point = \<lparr>lat = 0, lng = 0, alt = 1000, frame = ABOVE_HOME\<rparr>,
      best_return_loc = sample_location, terrain_use = False, origin_terr_alt = None,
      return_target_terr_alt = None, curr_terr_alt = None, return_target_home_alt = Some 0,
      terrain_above_home = None, return_dist_m = 100, fence_alt_max_enabled = False,
      fence_safe_alt_max = 10, rtl_climb_min = 0, rtl_altitude = 1500, rtl_cone_slope = 3,
      rtl_alt_final = 0, rtl_loiter_time = 5000, RTL_ALT_MIN = 200, RTL_MIN_CONE_SLOPE = 1 / 2,
      RTL_ABS_MIN_CLIMB = 250\<rparr>"

definition sample_path :: RTLPath where
  "sample_path =
     \<lparr>origin_point = sample_location, climb_target = sample_location,
      return_target = sample_location, descent_target = sample_location,
      land = False, terrain_used = False\<rparr>"

definition fresh :: ModeFrank where
  "fresh =
     \<lparr>rtl_state = Frank_Starting, state_complete = False, terrain_following_allowed = False,
      start_time_ms = 0, loiter_start_time = 0, rtl_path = sample_path,
      mission_wp = (\<lambda>n. (0, 0, 0)), mission_index = 0, mission_completed = False,
      auto_yaw_mode = AUTO_YAW_HOLD, events = []\<rparr>"

text \<open>The vehicle has arrived: the waypoint controller reports the destination reached.\<close>

definition arrived_inputs :: inputs where
  "arrived_inputs = sample_inputs\<lparr>reached := True\<rparr>"

text \<open>
  A controller holding at the last waypoint of the return leg, activated at 0 ms, and the
  same controller after an earlier activation has latched \<open>mission_completed\<close>, activated
  again at 1000 ms (the time of \<open>sample_inputs\<close>).
\<close>

definition holding :: ModeFrank where
  "holding = fresh\<lparr>rtl_state := Frank_ReturnHome, mission_index := 13\<rparr>"

definition reactivated :: ModeFrank where
  "reactivated = holding\<lparr>mission_completed := True, start_time_ms := 1000\<rparr>"

text \<open>
  Terrain following in use over ground that lies 50 m above home, the vehicle 1 m above
  the ground, and an altitude fence with a safe ceiling of 10 m above home.
\<close>

definition terrain_inputs :: inputs where
  "terrain_inputs =
     sample_inputs\<lparr>terrain_use := True, origin_terr_alt := Some 100,
       return_target_terr_alt := Some 0, curr_terr_alt := Some 100,
       terrain_above_home := Some 5000, fence_alt_max_enabled := True,
       fence_safe_alt_max := 10, rtl_altitude := 0, rtl_cone_slope := 0\<rparr>"

definition terrain_allowed :: ModeFrank where
  "terrain_allowed = fresh\<lparr>terrain_following_allowed := True\<rparr>"

text \<open>
  The vehicle 1 m from the return point, where the cone binds, with a configured minimum
  climb of 5 m.
\<close>

definition near_inputs :: inputs where
  "near_inputs = sample_inputs\<lparr>return_dist_m := 1, rtl_climb_min := 500\<rparr>"

text \<open>
  A return target stored 16777219 cm above terrain over ground far below home, so that
  it is 151 cm above home, and a fence with a safe ceiling of 1.5 m.
\<close>

definition deep_inputs :: inputs where
  "deep_inputs =
     sample_inputs\<lparr>terrain_above_home := Some (- 16777068), fence_alt_max_enabled := True,
       fence_safe_alt_max := 3 / 2\<rparr>"

definition deep_target :: Location where
  "deep_target = \<lparr>lat = 0, lng = 0, alt = 16777219, frame = ABOVE_TERRAIN\<rparr>"


section \<open>Properties\<close>

subsection \<open>Fields that the operations leave alone\<close>

lemma mission_index_restart_without_terrain:
  "mission_index (restart_without_terrain s) = mission_index s"
  by (simp add: restart_without_terrain_def log_event_def Let_def)

lemma mission_index_build_path: "mission_index (build_path i s) = mission_index s"
  by (simp add: build_path_def compute_return_target_def log_event_def Let_def)

lemma mission_index_climb_start:
  "mission_index (climb_start i s) = (if set_wp_ok i then 0 else mission_index s)"
  by (simp add: climb_start_def log_event_def Let_def)

lemma mission_index_return_start: "mission_index (return_start i s) = 13"
  by (simp add: return_start_def Let_def)

lemma mission_index_climb_return_run:
  "mission_index (climb_return_run i s) =
     (if \<not> disarmed_or_landed i \<and> mission_index s < 13 \<and> reached i
      then mission_index s + 1 else mission_index s)"
  by (simp add: climb_return_run_def log_event_def Let_def)

lemma mission_index_run_state:
  "mission_index (run_state d i s) =
     (if rtl_state s \<in> {Frank_Starting, Frank_InitialClimb, Frank_ReturnHome}
         \<and> \<not> disarmed_or_landed i \<and> mission_index s < 13 \<and> reached i
      then mission_index s + 1 else mission_index s)"
  by (cases "rtl_state s")
     (simp_all add: run_state_def mission_index_climb_return_run loiterathome_run_def
        descent_run_def land_run_def log_event_def Let_def)

lemma mission_index_next_state:
  "mission_index (next_state i s) =
     (if state_complete s \<and> rtl_state s = Frank_Starting \<and> set_wp_ok i then 0
      else if state_complete s \<and> rtl_state s = Frank_InitialClimb then 13
      else mission_index s)"
  by (cases "rtl_state s")
     (simp_all add: next_state_def mission_index_climb_start mission_index_build_path
        mission_index_return_start loiterathome_start_def land_start_def descent_start_def)

lemma rtl_state_enter_climb:
  "state_complete s \<Longrightarrow> rtl_state s = Frank_Starting \<Longrightarrow>
     rtl_state (next_state i s) = Frank_InitialClimb"
  by (simp add: next_state_def climb_start_def log_event_def Let_def)

lemma mission_index_step:
  assumes "mission_index s \<le> 13"
  shows "mission_index (step c s) \<le> 13
    \<and> (mission_index (step c s) < mission_index s \<longrightarrow> enters_climb c s)"
proof (cases c)
  case (Init ignore_checks i)
  then show ?thesis using assms by (simp add: init_def)
next
  case Restart_Without_Terrain
  then show ?thesis using assms by (simp add: mission_index_restart_without_terrain)
next
  case (Run d i)
  then show ?thesis using assms
    by (auto simp: run_def mission_index_run_state mission_index_next_state split: if_splits)
qed

lemma mission_index_exec: "mission_index s \<le> 13 \<Longrightarrow> mission_index (exec cs s) \<le> 13"
  by (induction cs arbitrary: s) (simp_all add: mission_index_step)

lemma mission_completed_restart_without_terrain:
  "mission_completed (restart_without_terrain s) = mission_completed s"
  by (simp add: restart_without_terrain_def log_event_def Let_def)

lemma mission_completed_build_path: "mission_completed (build_path i s) = mission_completed s"
  by (simp add: build_path_def compute_return_target_def log_event_def Let_def)

lemma mission_completed_init:
  "mission_completed (snd (init ignore_checks i s)) = mission_completed s"
  by (simp add: init_def)

lemma mission_completed_climb_start: "mission_completed (climb_start i s) = mission_completed s"
  by (simp add: climb_start_def log_event_def Let_def)

lemma mission_completed_return_start:
  "mission_completed (return_start i s) = mission_completed s"
  by (simp add: return_start_def log_event_def mission_completed_restart_without_terrain Let_def)

lemma mission_completed_climb_return_run:
  "mission_completed s \<Longrightarrow> mission_completed (climb_return_run i s)"
  by (simp add: climb_return_run_def log_event_def Let_def)

lemma mission_completed_next_state: "mission_completed (next_state i s) = mission_completed s"
  by (cases "rtl_state s")
     (simp_all add: next_state_def mission_completed_climb_start mission_completed_build_path
        mission_completed_return_start loiterathome_start_def land_start_def descent_start_def)

lemma mission_completed_run_state:
  "mission_completed s \<Longrightarrow> mission_completed (run_state d i s)"
  by (cases "rtl_state s")
     (simp_all add: run_state_def mission_completed_climb_return_run loiterathome_run_def
        descent_run_def land_run_def log_event_def Let_def)

lemma mission_completed_step: "mission_completed s \<Longrightarrow> mission_completed (step c s)"
  by (cases c)
     (simp_all add: mission_completed_init mission_completed_restart_without_terrain run_def
        mission_completed_run_state mission_completed_next_state)

lemma mission_completed_exec: "mission_completed s \<Longrightarrow> mission_completed (exec cs s)"
  by (induction cs arbitrary: s) (simp_all add: mission_completed_step)

lemma state_complete_latched:
  "mission_completed s \<Longrightarrow> \<not> disarmed_or_landed i \<Longrightarrow>
     state_complete (climb_return_run i s) = reached_at_check i s"
  by (simp add: climb_return_run_def log_event_def Let_def)

lemma state_complete_run_climb_return:
  assumes "armed i" "\<not> state_complete s"
    and "rtl_state s = Frank_InitialClimb \<or> rtl_state s = Frank_ReturnHome"
  shows "run d i s = climb_return_run i s"
  using assms by (auto simp: run_def next_state_def run_state_def)

lemma state_complete_run_return_entry:
  assumes "mission_completed s" "armed i" "\<not> disarmed_or_landed i" "state_complete s"
    and "rtl_state s = Frank_InitialClimb"
  shows "state_complete (run d i s) = reached i"
proof -
  let ?s = "return_start i s"
  have st: "rtl_state ?s = Frank_ReturnHome \<or> rtl_state ?s = Frank_Starting"
    by (simp add: return_start_def restart_without_terrain_def log_event_def Let_def)
  have mc: "mission_completed ?s"
    using assms(1) by (simp add: mission_completed_return_start)
  have mi: "mission_index ?s = 13" by (rule mission_index_return_start)
  have "state_complete (climb_return_run i s') = reached i"
    if "mission_completed s'" "mission_index s' = 13" for s'
    using that assms(3) by (simp add: state_complete_latched reached_at_check_def)
  then have "state_complete (run_state d i ?s) = reached i"
    using st mc mi by (auto simp: run_state_def)
  then show ?thesis using assms by (simp add: run_def next_state_def)
qed

subsection \<open>Machine arithmetic\<close>

lemma int32_in_range: "- 2147483648 \<le> x \<Longrightarrow> x \<le> 2147483647 \<Longrightarrow> int32 x = x"
  by (simp add: int32_def)

lemma float_to_int32_le: "r \<le> of_int a \<Longrightarrow> float_to_int32 r \<le> a"
  unfolding float_to_int32_def by (auto simp: ceiling_le_iff floor_le_iff)

lemma float_to_int32_nonneg: "0 \<le> r \<Longrightarrow> 0 \<le> float_to_int32 r"
  by (simp add: float_to_int32_def)

declare binade_up.simps [simp del] binade_down.simps [simp del]

lemma binade_up_spec:
  "e \<le> 127 \<Longrightarrow> 2 powi e \<le> x \<Longrightarrow>
     e \<le> binade_up x e \<and> binade_up x e \<le> 127 \<and> 2 powi (binade_up x e) \<le> x
     \<and> (binade_up x e < 127 \<longrightarrow> x < 2 powi (binade_up x e + 1))"
proof (induction x e rule: binade_up.induct)
  case (1 x e)
  show ?case
  proof (cases "127 \<le> e \<or> x < 2 powi (e + 1)")
    case True
    then show ?thesis using "1.prems" by (subst (1 2 3 4 5) binade_up.simps) auto
  next
    case False
    then have "e + 1 \<le> 127" "2 powi (e + 1) \<le> x" by auto
    from "1.IH" [OF False this] show ?thesis
      using False by (subst (1 2 3 4 5) binade_up.simps) auto
  qed
qed

lemma binade_down_spec:
  "- 126 \<le> e \<Longrightarrow> x < 2 powi (e + 1) \<Longrightarrow>
     - 126 \<le> binade_down x e \<and> binade_down x e \<le> e \<and> x < 2 powi (binade_down x e + 1)
     \<and> (- 126 < binade_down x e \<longrightarrow> 2 powi (binade_down x e) \<le> x)"
proof (induction x e rule: binade_down.induct)
  case (1 x e)
  show ?case
  proof (cases "e \<le> - 126 \<or> 2 powi e \<le> x")
    case True
    then show ?thesis using "1.prems" by (subst (1 2 3 4 5) binade_down.simps) auto
  next
    case False
    then have "- 126 \<le> e - 1" "x < 2 powi (e - 1 + 1)" by auto
    from "1.IH" [OF False this] show ?thesis
      using False by (subst (1 2 3 4 5) binade_down.simps) auto
  qed
qed

lemma binade_range: "- 126 \<le> binade x \<and> binade x \<le> 127"
  using binade_up_spec [of 0 x] binade_down_spec [of "- 1" x]
  by (auto simp: binade_def)

lemma binade_upper: "binade x < 127 \<Longrightarrow> x < 2 powi (binade x + 1)"
  using binade_up_spec [of 0 x] binade_down_spec [of "- 1" x]
  by (auto simp: binade_def)

lemma binade_lower: "- 126 < binade x \<Longrightarrow> 2 powi (binade x) \<le> x"
  using binade_up_spec [of 0 x] binade_down_spec [of "- 1" x]
  by (auto simp: binade_def)

lemma binade_mono:
  assumes "x \<le> y"
  shows "binade x \<le> binade y"
proof (rule ccontr)
  assume "\<not> binade x \<le> binade y"
  then have lt: "binade y < binade x" by simp
  have "binade y < 127" using lt binade_range [of x] by linarith
  then have "y < 2 powi (binade y + 1)" by (rule binade_upper)
  also have "\<dots> \<le> 2 powi (binade x)"
    using lt by (intro power_int_increasing) auto
  also have "\<dots> \<le> x"
    using lt binade_range [of y] by (intro binade_lower) linarith
  finally show False using assms by simp
qed

lemma round_half_even_of_int: "round_half_even (of_int k) = k"
  by (simp add: round_half_even_def)

lemma round_half_even_bounds:
  "\<lfloor>r\<rfloor> \<le> round_half_even r \<and> round_half_even r \<le> \<lfloor>r\<rfloor> + 1"
  by (simp add: round_half_even_def Let_def)

lemma round_half_even_mono:
  assumes "r \<le> s"
  shows "round_half_even r \<le> round_half_even s"
proof (cases "\<lfloor>r\<rfloor> = \<lfloor>s\<rfloor>")
  case True
  then show ?thesis using assms by (auto simp: round_half_even_def Let_def)
next
  case False
  then have "\<lfloor>r\<rfloor> + 1 \<le> \<lfloor>s\<rfloor>" using floor_mono [OF assms] by linarith
  then show ?thesis
    using round_half_even_bounds [of r] round_half_even_bounds [of s] by linarith
qed

lemma round_half_even_minus: "round_half_even (- r) = - round_half_even r"
proof (cases "r \<in> \<int>")
  case True
  then obtain k where "r = of_int k" by (auto elim: Ints_cases)
  then show ?thesis
    using round_half_even_of_int [of k] round_half_even_of_int [of "- k"] by simp
next
  case False
  define n where "n = \<lfloor>r\<rfloor>"
  have lt: "of_int n < r" "r < of_int n + 1"
    using False unfolding n_def by (metis Ints_of_int floor_correct order_less_le, linarith)
  have fm: "\<lfloor>- r\<rfloor> = - n - 1"
    using lt by (intro floor_unique) auto
  show ?thesis
    using lt unfolding round_half_even_def Let_def fm n_def [symmetric]
    by (auto simp: field_simps)
qed

lemma ulp_pos: "0 < ulp x"
  by (simp add: ulp_def)

lemma ulp_minus: "ulp (- x) = ulp x"
  by (simp add: ulp_def)

lemma binary32_minus: "binary32 (- x) = - binary32 x"
  by (simp add: binary32_def ulp_minus round_half_even_minus)

lemma binary32_nonneg:
  assumes "0 \<le> x"
  shows "0 \<le> binary32 x"
proof -
  have "0 \<le> x / ulp x" using assms ulp_pos [of x] by simp
  then have "round_half_even 0 \<le> round_half_even (x / ulp x)" by (rule round_half_even_mono)
  then have "0 \<le> round_half_even (x / ulp x)"
    using round_half_even_of_int [of 0] by simp
  then show ?thesis using ulp_pos [of x] by (simp add: binary32_def)
qed

text \<open>Rounding keeps the order: within one exponent, and across a power of two.\<close>

lemma binary32_mono_nonneg:
  assumes "0 \<le> x" "x \<le> y"
  shows "binary32 x \<le> binary32 y"
proof (cases "binade x = binade y")
  case True
  have u: "ulp x = ulp y" using assms True by (simp add: ulp_def)
  have "x / ulp y \<le> y / ulp y" using assms ulp_pos [of y] by (simp add: divide_right_mono)
  then have "round_half_even (x / ulp y) \<le> round_half_even (y / ulp y)"
    by (rule round_half_even_mono)
  then show ?thesis using ulp_pos [of y] unfolding binary32_def u by simp
next
  case False
  then have lt: "binade x < binade y" using binade_mono [OF assms(2)] by linarith
  have ax: "\<bar>x\<bar> = x" "\<bar>y\<bar> = y" using assms by auto
  have "binade x < 127" using lt binade_range [of y] by linarith
  then have xu: "x < 2 powi (binade x + 1)" by (rule binade_upper)
  have "2 powi (binade x + 1) = 16777216 * ulp x"
    unfolding ulp_def ax
    by (simp add: power_int_diff power_int_add)
  then have "x / ulp x \<le> of_int 16777216" using xu ulp_pos [of x] by (simp add: field_simps)
  then have "round_half_even (x / ulp x) \<le> round_half_even (of_int 16777216)"
    by (rule round_half_even_mono)
  then have "round_half_even (x / ulp x) \<le> 16777216"
    unfolding round_half_even_of_int .
  then have "binary32 x \<le> 16777216 * ulp x"
    using ulp_pos [of x] unfolding binary32_def by simp
  also have "\<dots> = 2 powi (binade x + 1)"
    unfolding ulp_def ax by (simp add: power_int_diff power_int_add)
  also have "\<dots> \<le> 2 powi (binade y)"
    using lt by (intro power_int_increasing) auto
  finally have left: "binary32 x \<le> 2 powi (binade y)" .
  have yl: "2 powi (binade y) \<le> y"
    using lt binade_range [of x] by (intro binade_lower) linarith
  have e: "2 powi (binade y) = 8388608 * ulp y"
    unfolding ulp_def ax by (simp add: power_int_diff)
  then have "of_int 8388608 \<le> y / ulp y" using yl ulp_pos [of y] by (simp add: field_simps)
  then have "round_half_even (of_int 8388608) \<le> round_half_even (y / ulp y)"
    by (rule round_half_even_mono)
  then have "8388608 \<le> round_half_even (y / ulp y)"
    unfolding round_half_even_of_int .
  then have "8388608 * ulp y \<le> binary32 y"
    using ulp_pos [of y] unfolding binary32_def by simp
  then show ?thesis using left e by linarith
qed

lemma binary32_mono:
  assumes "x \<le> y"
  shows "binary32 x \<le> binary32 y"
proof -
  consider "0 \<le> x" | "y \<le> 0" | "x < 0" "0 < y" by linarith
  then show ?thesis
  proof cases
    case 1
    then show ?thesis using assms by (rule binary32_mono_nonneg)
  next
    case 2
    then have "binary32 (- y) \<le> binary32 (- x)"
      using assms by (intro binary32_mono_nonneg) auto
    then show ?thesis by (simp add: binary32_minus)
  next
    case 3
    have "0 \<le> binary32 (- x)" "0 \<le> binary32 y"
      using 3 by (auto intro: binary32_nonneg)
    then show ?thesis by (simp add: binary32_minus)
  qed
qed

text \<open>Every integer of magnitude at most 2 to the 24 is a binary32 number.\<close>

lemma binary32_of_int:
  assumes "\<bar>a\<bar> \<le> 16777216"
  shows "binary32 (of_int a) = of_int a"
proof -
  have pos: "binary32 (of_int a) = of_int a" if a: "0 < a" "a \<le> 16777216" for a :: int
  proof -
    define e where "e = binade (of_int a)"
    have ax: "\<bar>real_of_int a\<bar> = of_int a" using a by simp
    have e0: "0 \<le> e"
    proof (rule ccontr)
      assume "\<not> 0 \<le> e"
      then have "e < 127" "e + 1 \<le> 0" by auto
      then have "real_of_int a < 2 powi (e + 1)" unfolding e_def by (intro binade_upper)
      also have "\<dots> \<le> 2 powi 0" using \<open>e + 1 \<le> 0\<close> by (intro power_int_increasing) auto
      finally show False using a by simp
    qed
    have e24: "e \<le> 24"
    proof (rule ccontr)
      assume "\<not> e \<le> 24"
      then have "- 126 < e" "25 \<le> e" by auto
      have "(2::real) powi 25 \<le> 2 powi e" using \<open>25 \<le> e\<close> by (intro power_int_increasing) auto
      also have "\<dots> \<le> real_of_int a" using \<open>- 126 < e\<close> unfolding e_def by (intro binade_lower)
      finally show False using a by simp
    qed
    have "\<exists>k. real_of_int a / 2 powi (e - 23) = of_int k"
    proof (cases "e \<le> 23")
      case True
      then have "(2::real) powi (e - 23) = inverse (2 ^ nat (23 - e))"
        using power_int_minus [of "2::real" "23 - e"] by (simp add: power_int_def)
      then have "real_of_int a / 2 powi (e - 23) = of_int (a * 2 ^ nat (23 - e))"
        by (simp add: field_simps)
      then show ?thesis by blast
    next
      case False
      then have e: "e = 24" using e24 by simp
      have "(2::real) powi 24 \<le> real_of_int a"
        using e unfolding e_def
        by (intro binade_lower [of "real_of_int a", unfolded e_def [symmetric] e]) auto
      then have "a = 16777216" using a by simp
      then have "real_of_int a / 2 powi (e - 23) = of_int 8388608" using e by simp
      then show ?thesis by blast
    qed
    then obtain k where k: "real_of_int a / 2 powi (e - 23) = of_int k" by blast
    have "binary32 (of_int a) = of_int k * 2 powi (e - 23)"
      unfolding binary32_def ulp_def ax e_def [symmetric] k round_half_even_of_int ..
    also have "\<dots> = of_int a" using k by (simp add: field_simps)
    finally show ?thesis .
  qed
  consider "a = 0" | "0 < a" | "a < 0" by linarith
  then show ?thesis
  proof cases
    case 1
    then show ?thesis using round_half_even_of_int [of 0] by (simp add: binary32_def)
  next
    case 2
    then show ?thesis using assms by (intro pos) auto
  next
    case 3
    then have "binary32 (of_int (- a)) = of_int (- a)" using assms by (intro pos) auto
    then show ?thesis by (simp add: binary32_minus)
  qed
qed

lemma binary32_numeral:
  "numeral n \<le> (16777216::int) \<Longrightarrow> binary32 (numeral n) = numeral n"
  using binary32_of_int [of "numeral n"] by simp

lemma binary32_neg_numeral:
  "numeral n \<le> (16777216::int) \<Longrightarrow> binary32 (- numeral n) = - numeral n"
  using binary32_of_int [of "- numeral n"] by simp

lemma binary32_1: "binary32 1 = 1"
  using binary32_of_int [of 1] by simp

lemma binary32_le_int:
  "x \<le> of_int a \<Longrightarrow> \<bar>a\<bar> \<le> 16777216 \<Longrightarrow> binary32 x \<le> of_int a"
  using binary32_mono [of x "of_int a"] binary32_of_int [of a] by simp

text \<open>The integer 16777219 is not a binary32 number: it lies halfway between two.\<close>

lemma binary32_16777219: "binary32 16777219 = 16777220"
  by (simp add: binary32_def ulp_def binade_def binade_up.simps round_half_even_def)

subsection \<open>The return-target altitude\<close>

text \<open>
  One metre from the return point, at 10 m above home, with a minimum climb of 5 m and an
  RTL altitude of 15 m, both bounds of C1 are 1500 cm. The cone keeps the altitude that
  the policy delivers at 1250 cm, below both, and the altitude stored is 700 cm.
\<close>

theorem return_target_alt_below_bounds:
  "resolved_curr_alt near_inputs fresh + max 0 (rtl_climb_min near_inputs) = 1500
   \<and> max (rtl_altitude near_inputs) (RTL_ALT_MIN near_inputs) = 1500
   \<and> alt (policy_return_target near_inputs fresh) = 1250
   \<and> alt (return_target (rtl_path (compute_return_target near_inputs fresh))) = 700"
  by (simp add: compute_return_target_def policy_return_target_def unfenced_return_target_def
        fence_clamp_def cone_clamp_def raised_target_alt_def raise_target_alt_def
        framed_return_target_def return_target_above_home_def change_alt_frame_def
        set_alt_cm_def resolved_terrain_used_def resolved_curr_alt_def int32_def
        float_to_int32_def binary32_numeral Let_def log_event_def near_inputs_def
        sample_inputs_def fresh_def sample_location_def)

text \<open>
  C1, as amended. In every activation of \<open>compute_return_target\<close>, the target altitude
  as the raising steps leave it (line 532, before the cone, the fence and the final write)
  is at least the configured RTL altitude floored at the system minimum, and, for all
  current altitudes and configured climb minimums whose sum (the climb minimum floored
  at 0) stays within the 32-bit range, at least that sum.
\<close>

theorem raised_target_alt_bounds:
  "max (rtl_altitude i) (RTL_ALT_MIN i) \<le> raised_target_alt i s
   \<and> (- 2147483648 \<le> resolved_curr_alt i s + max 0 (rtl_climb_min i)
        \<and> resolved_curr_alt i s + max 0 (rtl_climb_min i) \<le> 2147483647
      \<longrightarrow> resolved_curr_alt i s + max 0 (rtl_climb_min i) \<le> raised_target_alt i s)"
  by (auto simp: raised_target_alt_def raise_target_alt_def int32_in_range Let_def
        le_max_iff_disj)

theorem raised_target_alt_bounds_witness:
  "- 2147483648 \<le> resolved_curr_alt near_inputs fresh + max 0 (rtl_climb_min near_inputs)
   \<and> resolved_curr_alt near_inputs fresh + max 0 (rtl_climb_min near_inputs) \<le> 2147483647
   \<and> 1500 \<le> raised_target_alt near_inputs fresh"
  using raised_target_alt_bounds [of near_inputs fresh]
  by (simp add: resolved_curr_alt_def near_inputs_def sample_inputs_def fresh_def)

text \<open>
  C2. Whatever the altitude policy has produced, the last write of
  \<open>compute_return_target\<close> stores the constant 700 as the altitude of the return target:
  for every input and every controller state the stored altitude is 700, whatever the
  current altitude, the configured RTL altitude, the cone slope and the fence ceiling.
\<close>

theorem compute_return_target_alt_700:
  "alt (return_target (rtl_path (compute_return_target i s))) = 700"
  by (simp add: compute_return_target_def Let_def log_event_def)

theorem compute_return_target_alt_700_witness:
  "alt (return_target (rtl_path (compute_return_target terrain_inputs terrain_allowed))) = 700"
  by (rule compute_return_target_alt_700)

subsection \<open>The waypoint sequencer and the dwell\<close>

text \<open>
  With the latch \<open>mission_completed\<close> left set by an earlier activation, the phase is
  marked complete by a reached destination alone, 0 ms after the activation.
\<close>

theorem climb_return_run_complete_without_dwell:
  "\<not> state_complete reactivated
   \<and> state_complete (climb_return_run arrived_inputs reactivated)
   \<and> unat (millis arrived_inputs - start_time_ms reactivated) = 0"
  by (simp add: climb_return_run_def reached_at_check_def Let_def reactivated_def holding_def
        fresh_def arrived_inputs_def sample_inputs_def)

text \<open>
  C3, as amended. When the latch \<open>mission_completed\<close> is not set on entry,
  \<open>climb_return_run\<close> leaves \<open>state_complete\<close> as it was if the vehicle is disarmed or
  landed, and otherwise sets it to true exactly when the waypoint index is at least 13,
  the navigation controller reports the destination reached and more than 180 000 ms
  (in wrapping 32-bit arithmetic) have passed since \<open>start_time_ms\<close>: neither a reached
  destination alone nor elapsed time alone marks the phase complete.
\<close>

theorem climb_return_run_complete_iff:
  "\<not> mission_completed s \<Longrightarrow>
   state_complete (climb_return_run i s) =
     (if disarmed_or_landed i then state_complete s
      else 13 \<le> mission_index s \<and> reached i \<and> 180000 < unat (millis i - start_time_ms s))"
  by (auto simp: climb_return_run_def Let_def log_event_def reached_at_check_def
        word_less_nat_alt)

theorem climb_return_run_complete_iff_witness:
  "\<not> mission_completed holding
   \<and> \<not> state_complete (climb_return_run (arrived_inputs\<lparr>millis := 170000\<rparr>) holding)
   \<and> state_complete (climb_return_run (arrived_inputs\<lparr>millis := 181000\<rparr>) holding)
   \<and> \<not> state_complete (climb_return_run (sample_inputs\<lparr>millis := 181000\<rparr>) holding)"
  using climb_return_run_complete_iff [of holding "arrived_inputs\<lparr>millis := 170000\<rparr>"]
    climb_return_run_complete_iff [of holding "arrived_inputs\<lparr>millis := 181000\<rparr>"]
    climb_return_run_complete_iff [of holding "sample_inputs\<lparr>millis := 181000\<rparr>"]
  by (simp add: holding_def fresh_def arrived_inputs_def sample_inputs_def)

text \<open>
  At index 12 with the destination reached the sequencer does advance, to 13, and pushes
  the waypoint stored there.
\<close>

theorem climb_return_run_advances_at_12:
  "reached arrived_inputs
   \<and> 12 \<le> mission_index (fresh\<lparr>mission_index := 12\<rparr>)
   \<and> mission_index (climb_return_run arrived_inputs (fresh\<lparr>mission_index := 12\<rparr>)) = 13
   \<and> events (climb_return_run arrived_inputs (fresh\<lparr>mission_index := 12\<rparr>))
       = [Set_Wp_Destination (0, 0, 0) True]"
  by (simp add: climb_return_run_def reached_at_check_def Let_def fresh_def arrived_inputs_def
        sample_inputs_def log_event_def)

text \<open>
  C4, as amended. In \<open>climb_return_run\<close>, for a vehicle that is neither disarmed nor
  landed and a destination reported reached: whenever the waypoint index is below 13, the
  index is advanced by one and the waypoint at the new index is pushed as the new
  navigation destination (and the latch is left alone); whenever the index is at or past
  13, the index stays, nothing is pushed, and only the dwell policy is evaluated.
\<close>

theorem climb_return_run_sequencer:
  "\<not> disarmed_or_landed i \<Longrightarrow> reached i \<Longrightarrow>
   (mission_index s < 13 \<longrightarrow>
      mission_index (climb_return_run i s) = mission_index s + 1
      \<and> events (climb_return_run i s)
          = events s @ [Set_Wp_Destination (mission_wp s (mission_index s + 1)) (set_wp_ok i)]
      \<and> mission_completed (climb_return_run i s) = mission_completed s)
   \<and> (13 \<le> mission_index s \<longrightarrow>
      mission_index (climb_return_run i s) = mission_index s
      \<and> events (climb_return_run i s) = events s
      \<and> mission_completed (climb_return_run i s)
          = (mission_completed s \<or> 180000 < unat (millis i - start_time_ms s)))"
  by (auto simp: climb_return_run_def Let_def log_event_def word_less_nat_alt)

theorem climb_return_run_sequencer_witness:
  "\<not> disarmed_or_landed arrived_inputs \<and> reached arrived_inputs
   \<and> mission_index fresh < 13
   \<and> mission_index (climb_return_run arrived_inputs fresh) = 1
   \<and> events (climb_return_run arrived_inputs fresh) = [Set_Wp_Destination (0, 0, 0) True]
   \<and> 13 \<le> mission_index holding
   \<and> mission_index (climb_return_run arrived_inputs holding) = 13
   \<and> events (climb_return_run arrived_inputs holding) = []
   \<and> \<not> mission_completed (climb_return_run arrived_inputs holding)"
  using climb_return_run_sequencer [of arrived_inputs fresh]
    climb_return_run_sequencer [of arrived_inputs holding]
  by (simp add: holding_def fresh_def arrived_inputs_def sample_inputs_def)

text \<open>
  C5. Along every sequence of calls on a controller whose \<open>mission_index\<close> starts at
  most 13 (the zero-initialised controller starts at 0), \<open>mission_index\<close> never exceeds
  13, and a call lowers it only if it is a \<open>run\<close> that enters the climb phase. There
  \<open>climb_start\<close> resets it to 0, and the call ends with the index at 0, or at 1 when the
  sequencer has advanced in the same call.
\<close>

theorem mission_index_bounded_monotone:
  "mission_index s \<le> 13 \<Longrightarrow>
     mission_index (exec cs s) \<le> 13
     \<and> (mission_index (step c (exec cs s)) < mission_index (exec cs s)
          \<longrightarrow> enters_climb c (exec cs s))
     \<and> (enters_climb (Run d i) (exec cs s) \<longrightarrow>
          mission_index (climb_start i (build_path i (exec cs s))) = 0
          \<and> mission_index (step (Run d i) (exec cs s))
              = (if \<not> disarmed_or_landed i \<and> reached i then 1 else 0))"
  using mission_index_exec [of s cs] mission_index_step [of "exec cs s" c]
  by (auto simp: run_def mission_index_run_state mission_index_next_state
        mission_index_climb_start rtl_state_enter_climb)

theorem mission_index_bounded_monotone_witness:
  "mission_index holding \<le> 13
   \<and> mission_index (exec [Init False sample_inputs] holding) = 13
   \<and> mission_index (step (Run False sample_inputs) (exec [Init False sample_inputs] holding))
       < mission_index (exec [Init False sample_inputs] holding)
   \<and> enters_climb (Run False sample_inputs) (exec [Init False sample_inputs] holding)
   \<and> mission_index (step (Run False sample_inputs) (exec [Init False sample_inputs] holding)) = 0
   \<and> mission_index (step (Run False arrived_inputs) (exec [Init False sample_inputs] holding)) = 1"
  using mission_index_bounded_monotone
      [of holding "[Init False sample_inputs]" "Run False sample_inputs" False sample_inputs]
    mission_index_bounded_monotone
      [of holding "[Init False sample_inputs]" "Run False sample_inputs" False arrived_inputs]
  by (simp add: holding_def fresh_def arrived_inputs_def sample_inputs_def init_def)

subsection \<open>Transitions\<close>

text \<open>
  C6. When \<open>run\<close> dispatches the transition out of a completed LoiterAtHome phase, the
  controller enters Land if the \<open>land\<close> flag of the path is set or the radio failsafe is
  on, and FinalDescent otherwise; \<open>build_path\<close> sets the \<open>land\<close> flag exactly when the
  configured final RTL altitude is not positive.
\<close>

theorem run_leaves_loiter:
  "(armed i \<and> state_complete s \<and> rtl_state s = Frank_LoiterAtHome \<longrightarrow>
      (rtl_state (run d i s) = Frank_Land) = (land (rtl_path s) \<or> failsafe_radio i)
      \<and> (\<not> (land (rtl_path s) \<or> failsafe_radio i) \<longrightarrow>
           rtl_state (run d i s) = Frank_FinalDescent))
   \<and> land (rtl_path (build_path i s)) = (rtl_alt_final i \<le> 0)"
  by (simp add: run_def next_state_def run_state_def land_start_def descent_start_def
        land_run_def descent_run_def build_path_def log_event_def Let_def)

theorem run_leaves_loiter_witness:
  "armed sample_inputs
   \<and> state_complete (fresh\<lparr>rtl_state := Frank_LoiterAtHome, state_complete := True\<rparr>)
   \<and> rtl_state (run False sample_inputs
        (fresh\<lparr>rtl_state := Frank_LoiterAtHome, state_complete := True\<rparr>)) = Frank_FinalDescent
   \<and> rtl_state (run False (sample_inputs\<lparr>failsafe_radio := True\<rparr>)
        (fresh\<lparr>rtl_state := Frank_LoiterAtHome, state_complete := True\<rparr>)) = Frank_Land
   \<and> land (rtl_path (build_path sample_inputs fresh))"
  using run_leaves_loiter
      [of sample_inputs "fresh\<lparr>rtl_state := Frank_LoiterAtHome, state_complete := True\<rparr>" False]
    run_leaves_loiter
      [of "sample_inputs\<lparr>failsafe_radio := True\<rparr>"
          "fresh\<lparr>rtl_state := Frank_LoiterAtHome, state_complete := True\<rparr>" False]
    run_leaves_loiter [of sample_inputs fresh False]
  by (simp add: fresh_def sample_inputs_def sample_path_def)

text \<open>
  C7. When the active path did not use terrain altitudes, \<open>restart_without_terrain\<close>
  leaves every member of the controller as it was and sends no operator notification
  (the one thing it does is the error-log entry it writes in both cases); when the path
  did use terrain altitudes, it clears \<open>terrain_following_allowed\<close>, resets the phase to
  Starting with \<open>state_complete\<close> true, and sends one operator notification.
\<close>

theorem restart_without_terrain_effect:
  "(\<not> terrain_used (rtl_path s) \<longrightarrow>
     restart_without_terrain s
       = s\<lparr>events := events s @ [Write_Error NAVIGATION RESTARTED_RTL]\<rparr>)
   \<and> (terrain_used (rtl_path s) \<longrightarrow>
     restart_without_terrain s
       = s\<lparr>terrain_following_allowed := False, rtl_state := Frank_Starting,
           state_complete := True,
           events := events s @ [Write_Error NAVIGATION RESTARTED_RTL,
                                 Gcs_Send_Text ''Restarting RTL - Terrain data missing'']\<rparr>)"
  by (simp add: restart_without_terrain_def log_event_def Let_def)

theorem restart_without_terrain_effect_witness:
  "\<not> terrain_used (rtl_path holding)
   \<and> restart_without_terrain holding
       = holding\<lparr>events := [Write_Error NAVIGATION RESTARTED_RTL]\<rparr>
   \<and> terrain_used (rtl_path (holding\<lparr>rtl_path := sample_path\<lparr>terrain_used := True\<rparr>\<rparr>))
   \<and> rtl_state (restart_without_terrain
        (holding\<lparr>rtl_path := sample_path\<lparr>terrain_used := True\<rparr>\<rparr>)) = Frank_Starting
   \<and> state_complete (restart_without_terrain
        (holding\<lparr>rtl_path := sample_path\<lparr>terrain_used := True\<rparr>\<rparr>))"
  using restart_without_terrain_effect [of holding]
    restart_without_terrain_effect [of "holding\<lparr>rtl_path := sample_path\<lparr>terrain_used := True\<rparr>\<rparr>"]
  by (simp add: holding_def fresh_def sample_path_def)

text \<open>
  C8. \<open>init\<close> returns false exactly when no home is set and the checks are not bypassed;
  whenever it returns true, the phase is Starting, \<open>state_complete\<close> is true,
  \<open>terrain_following_allowed\<close> is the negation of the terrain failsafe, \<open>start_time_ms\<close>
  is the current time, and nothing else has changed.
\<close>

theorem init_contract:
  "(\<not> fst (init ignore_checks i s)) = (\<not> home_is_set i \<and> \<not> ignore_checks)
   \<and> (fst (init ignore_checks i s) \<longrightarrow>
        snd (init ignore_checks i s)
          = s\<lparr>rtl_state := Frank_Starting, state_complete := True,
              terrain_following_allowed := \<not> failsafe_terrain i,
              start_time_ms := millis i\<rparr>)"
  by (auto simp add: init_def)

theorem init_contract_witness:
  "fst (init False sample_inputs holding)
   \<and> rtl_state (snd (init False sample_inputs holding)) = Frank_Starting
   \<and> state_complete (snd (init False sample_inputs holding))
   \<and> terrain_following_allowed (snd (init False sample_inputs holding))
   \<and> start_time_ms (snd (init False sample_inputs holding)) = 1000
   \<and> \<not> fst (init False (sample_inputs\<lparr>home_is_set := False\<rparr>) holding)
   \<and> fst (init True (sample_inputs\<lparr>home_is_set := False\<rparr>) holding)"
  using init_contract [of False sample_inputs holding]
    init_contract [of False "sample_inputs\<lparr>home_is_set := False\<rparr>" holding]
    init_contract [of True "sample_inputs\<lparr>home_is_set := False\<rparr>" holding]
  by (simp add: sample_inputs_def)

subsection \<open>The fence\<close>

text \<open>
  Over ground that lies 50 m above home, a return target stored 2 m above terrain is
  5200 cm above home; a fence ceiling of 10 m takes the overage of 4200 cm off the stored
  altitude, which becomes negative. And a stored altitude of 16777219 cm, which is not
  a binary32 number, comes out of the step one centimetre higher than it went in.
\<close>

theorem fence_clamp_negative_above_terrain:
  "frame (unfenced_return_target terrain_inputs terrain_allowed) = ABOVE_TERRAIN
   \<and> alt (unfenced_return_target terrain_inputs terrain_allowed) = 200
   \<and> alt (fence_clamp terrain_inputs (unfenced_return_target terrain_inputs terrain_allowed))
       = - 4000
   \<and> alt deep_target = 16777219
   \<and> alt (fence_clamp deep_inputs deep_target) = 16777220"
  by (simp add: unfenced_return_target_def fence_clamp_def get_alt_cm_above_home_def
        framed_return_target_def resolved_terrain_used_def terrain_lookups_ok_def
        change_alt_frame_def set_alt_cm_def raised_target_alt_def raise_target_alt_def
        resolved_curr_alt_def cone_clamp_def float_to_int32_def int32_def Let_def
        binary32_numeral binary32_neg_numeral binary32_1 binary32_16777219
        terrain_inputs_def terrain_allowed_def deep_inputs_def deep_target_def
        sample_inputs_def fresh_def sample_location_def)

text \<open>
  C9, as amended. The fence-clamping step of \<open>compute_return_target\<close> never increases
  an altitude of the return target whose magnitude is at most 16777216 cm (2 to the 24,
  up to which every altitude is a binary32 number); when such an altitude is stored in the
  above-home frame and is not negative, and the fence ceiling is not negative, the
  altitude the step produces is not negative.
\<close>

theorem fence_clamp_never_raises:
  "(\<bar>alt l\<bar> \<le> 16777216 \<longrightarrow> alt (fence_clamp i l) \<le> alt l)
   \<and> (frame l = ABOVE_HOME \<and> 0 \<le> alt l \<and> alt l \<le> 16777216 \<and> 0 \<le> fence_safe_alt_max i
        \<longrightarrow> 0 \<le> alt (fence_clamp i l))"
proof (intro conjI impI)
  assume r: "\<bar>alt l\<bar> \<le> 16777216"
  have "float_to_int32 (binary32 (binary32 (of_int (alt l)) - binary32 (binary32 (of_int t) - f)))
          \<le> alt l"
    if "f < binary32 (of_int t)" for t :: int and f :: real
  proof -
    have "0 \<le> binary32 (binary32 (of_int t) - f)"
      using that by (intro binary32_nonneg) simp
    then have "binary32 (of_int (alt l)) - binary32 (binary32 (of_int t) - f) \<le> of_int (alt l)"
      using binary32_of_int [OF r] by simp
    then have "binary32 (binary32 (of_int (alt l)) - binary32 (binary32 (of_int t) - f))
                 \<le> of_int (alt l)"
      using r by (rule binary32_le_int)
    then show ?thesis by (rule float_to_int32_le)
  qed
  then show "alt (fence_clamp i l) \<le> alt l"
    by (auto simp: fence_clamp_def Let_def split: option.splits)
next
  assume h: "frame l = ABOVE_HOME \<and> 0 \<le> alt l \<and> alt l \<le> 16777216 \<and> 0 \<le> fence_safe_alt_max i"
  then have r: "\<bar>alt l\<bar> \<le> 16777216" by simp
  define f where "f = binary32 (fence_safe_alt_max i * 100)"
  have f0: "0 \<le> f" unfolding f_def using h by (intro binary32_nonneg) simp
  have a: "binary32 (of_int (alt l)) = of_int (alt l)" by (rule binary32_of_int [OF r])
  have "binary32 (of_int (alt l) - f) \<le> of_int (alt l)"
    using f0 r by (intro binary32_le_int) auto
  then have "0 \<le> binary32 (of_int (alt l) - binary32 (of_int (alt l) - f))"
    by (intro binary32_nonneg) simp
  then have "0 \<le> float_to_int32 (binary32 (of_int (alt l) - binary32 (of_int (alt l) - f)))"
    by (rule float_to_int32_nonneg)
  then show "0 \<le> alt (fence_clamp i l)"
    using h by (simp add: fence_clamp_def get_alt_cm_above_home_def Let_def a f_def)
qed

theorem fence_clamp_never_raises_witness:
  "\<bar>alt \<lparr>lat = 0, lng = 0, alt = 2000, frame = ABOVE_HOME\<rparr>\<bar> \<le> 16777216
   \<and> frame \<lparr>lat = 0, lng = 0, alt = 2000, frame = ABOVE_HOME\<rparr> = ABOVE_HOME
   \<and> 0 \<le> alt \<lparr>lat = 0, lng = 0, alt = 2000, frame = ABOVE_HOME\<rparr>
   \<and> 0 \<le> fence_safe_alt_max terrain_inputs
   \<and> alt (fence_clamp terrain_inputs \<lparr>lat = 0, lng = 0, alt = 2000, frame = ABOVE_HOME\<rparr>)
       \<le> 2000
   \<and> 0 \<le> alt (fence_clamp terrain_inputs \<lparr>lat = 0, lng = 0, alt = 2000, frame = ABOVE_HOME\<rparr>)"
  using fence_clamp_never_raises
    [of "\<lparr>lat = 0, lng = 0, alt = 2000, frame = ABOVE_HOME\<rparr>" terrain_inputs]
  by (simp add: terrain_inputs_def sample_inputs_def)

subsection \<open>The latch\<close>

text \<open>
  A controller whose latch is set is activated again and run once while the navigation
  controller reports the destination reached: \<open>climb_start\<close> has put the index back to
  0, so the tick advances the sequencer to waypoint 1 and the phase is not complete.
\<close>

theorem reactivated_first_reached_tick_not_complete:
  "mission_completed reactivated
   \<and> reached arrived_inputs
   \<and> rtl_state (exec [Init False arrived_inputs, Run False arrived_inputs] reactivated)
       = Frank_InitialClimb
   \<and> mission_index (exec [Init False arrived_inputs, Run False arrived_inputs] reactivated) = 1
   \<and> \<not> state_complete (exec [Init False arrived_inputs, Run False arrived_inputs] reactivated)"
  by (simp add: init_def run_def next_state_def run_state_def climb_start_def
        climb_return_run_def reached_at_check_def build_path_def compute_return_target_def
        log_event_def Let_def reactivated_def holding_def fresh_def arrived_inputs_def
        sample_inputs_def)

text \<open>
  C10, as amended. Neither \<open>init\<close> nor \<open>climb_start\<close> (nor \<open>restart_without_terrain\<close>)
  writes the latch \<open>mission_completed\<close>, and once it is true it stays true along every
  sequence of calls. With the latch set, a tick of \<open>run\<close> in the InitialClimb or
  ReturnHome phase, on an armed vehicle that is neither disarmed nor landed, sets
  \<open>state_complete\<close> without regard to the time passed since \<open>start_time_ms\<close>: once the
  waypoint index is 13 or more (and on the tick that enters ReturnHome, which sets it to
  13), the phase is marked complete in the first tick in which the destination is
  reported reached; while the index is below 13, a reached tick advances the sequencer,
  and the phase is marked complete in that tick only when the navigation controller still
  reports reached after the new destination has been pushed.
\<close>

theorem mission_completed_latched:
  "mission_completed (snd (init ignore_checks i s)) = mission_completed s
   \<and> mission_completed (climb_start i s) = mission_completed s
   \<and> mission_completed (restart_without_terrain s) = mission_completed s
   \<and> (mission_completed s \<longrightarrow>
        mission_completed (exec cs s)
        \<and> (\<not> disarmed_or_landed i \<longrightarrow>
             state_complete (climb_return_run i s) = reached_at_check i s)
        \<and> (\<not> disarmed_or_landed i \<and> reached i \<and> 13 \<le> mission_index s \<longrightarrow>
             state_complete (climb_return_run i s))
        \<and> (armed i \<and> \<not> disarmed_or_landed i \<and> \<not> state_complete s
             \<and> (rtl_state s = Frank_InitialClimb \<or> rtl_state s = Frank_ReturnHome) \<longrightarrow>
             state_complete (run d i s)
               = (if mission_index s < 13 \<and> reached i then reached_after_push i else reached i))
        \<and> (armed i \<and> \<not> disarmed_or_landed i \<and> state_complete s
             \<and> rtl_state s = Frank_InitialClimb \<longrightarrow>
             state_complete (run d i s) = reached i))"
  using state_complete_run_climb_return [of i s d] state_complete_run_return_entry [of s i d]
  by (auto simp: mission_completed_init mission_completed_climb_start
        mission_completed_restart_without_terrain mission_completed_exec
        state_complete_latched reached_at_check_def)

theorem mission_completed_latched_witness:
  "mission_completed reactivated
   \<and> mission_completed
       (exec [Init False arrived_inputs, Run False arrived_inputs, Restart_Without_Terrain]
          reactivated)
   \<and> armed arrived_inputs \<and> \<not> disarmed_or_landed arrived_inputs \<and> reached arrived_inputs
   \<and> \<not> state_complete reactivated \<and> rtl_state reactivated = Frank_ReturnHome
   \<and> 13 \<le> mission_index reactivated
   \<and> millis arrived_inputs - start_time_ms reactivated = 0
   \<and> state_complete (climb_return_run arrived_inputs reactivated)
   \<and> state_complete (run False arrived_inputs reactivated)
   \<and> state_complete
       (run False arrived_inputs
          (reactivated\<lparr>rtl_state := Frank_InitialClimb, state_complete := True\<rparr>))"
  using mission_completed_latched
      [of False arrived_inputs reactivated
          "[Init False arrived_inputs, Run False arrived_inputs, Restart_Without_Terrain]" False]
    mission_completed_latched
      [of False arrived_inputs
          "reactivated\<lparr>rtl_state := Frank_InitialClimb, state_complete := True\<rparr>" "[]" False]
  by (simp add: reached_at_check_def reactivated_def holding_def fresh_def arrived_inputs_def
        sample_inputs_def)

end
